theory Spec2Isabelle
  imports Complex_Main "HOL-Library.Word"
begin

unbundle bit_operations_syntax

section \<open>Numbers\<close>

text \<open>
  A C++ \<open>double\<close> is modelled as a \<open>real\<close>: arithmetic is exact, there is no rounding
  and no overflow.  The special values matter at a few places of the program, and
  there they are written out: a bound of an interval may be infinite (\<open>xreal\<close>), a
  division by a zero squared length in \<open>sphere::hit\<close> gives NaN, and the square
  root of a negative number is NaN; every comparison with NaN is false.
  The only single-precision computation of the program, \<open>Qsqrt\<close>, is modelled with
  its rounding (next section).
\<close>

datatype xreal = MInf | Fin real | PInf

text \<open>\<open>xless a b\<close> is \<open>a < b\<close> on doubles that may be infinite.\<close>

fun xless :: "xreal \<Rightarrow> xreal \<Rightarrow> bool" where
  "xless (Fin a) (Fin b) = (a < b)"
| "xless MInf MInf = False"
| "xless MInf _ = True"
| "xless PInf _ = False"
| "xless (Fin a) PInf = True"
| "xless (Fin a) MInf = False"

section \<open>Single precision\<close>

text \<open>
  \<open>Qsqrt\<close> computes on \<open>float\<close>.  A finite float is modelled by the real number it
  denotes; \<open>fround\<close> rounds a real to the nearest float, ties to even (subnormals
  included, overflow to infinity not modelled), so that a float operation is the
  exact operation followed by \<open>fround\<close>.
  \<open>float_exponent x\<close> is the exponent of the binade of \<open>x\<close>, at least \<open>-126\<close>.
\<close>

fun exponent_below :: "nat \<Rightarrow> real \<Rightarrow> int" where
  "exponent_below 0 x = - 126"
| "exponent_below (Suc k) x =
     (if 2 powi (int (Suc k) - 126) \<le> \<bar>x\<bar> then int (Suc k) - 126 else exponent_below k x)"

definition float_exponent :: "real \<Rightarrow> int" where
  "float_exponent x = exponent_below 253 x"

definition round_half_even :: "real \<Rightarrow> int" where
  "round_half_even q =
     (let f = \<lfloor>q\<rfloor>; d = q - of_int f
      in if d < 1 / 2 then f else if 1 / 2 < d then f + 1 else if even f then f else f + 1)"

definition fround :: "real \<Rightarrow> real" where
  "fround x =
     (let ulp = 2 powi (float_exponent x - 23)
      in of_int (round_half_even (x / ulp)) * ulp)"

definition fmul :: "real \<Rightarrow> real \<Rightarrow> real" where
  "fmul a b = fround (a * b)"

definition fsub :: "real \<Rightarrow> real \<Rightarrow> real" where
  "fsub a b = fround (a - b)"

text \<open>
  The IEEE 754 binary32 pattern of a float and the float of a pattern: sign in bit
  31, biased exponent in bits 30 to 23, fraction in bits 22 to 0.  They stand for
  the pointer casts \<open>* (long *) &y\<close> and \<open>* (float *) &i\<close>; \<open>long\<close> is taken to
  have 32 bits, as the source's comment on \<open>i\<close> says.  \<open>float_value\<close> is meant for
  patterns of finite floats (exponent field below 255).
\<close>

definition float_bits :: "real \<Rightarrow> 32 word" where
  "float_bits x =
     (let e = float_exponent x;
          m = \<lfloor>\<bar>x\<bar> / 2 powi (e - 23)\<rfloor>;
          s = (if x < 0 then 2 ^ 31 else 0)
      in if m < 2 ^ 23 then word_of_int (s + m)
         else word_of_int (s + (e + 127) * 2 ^ 23 + (m - 2 ^ 23)))"

definition float_value :: "32 word \<Rightarrow> real" where
  "float_value w =
     (let s = (if bit w 31 then - 1 else 1 :: real);
          ef = uint (drop_bit 23 w AND 255);
          m = uint (w AND 8388607)
      in if ef = 0 then s * of_int m * 2 powi (- 149)
         else s * of_int (2 ^ 23 + m) * 2 powi (ef - 150))"

section \<open>vec3.h\<close>

text \<open>
  \<open>class vec3\<close> holds three doubles \<open>e[0]\<close>, \<open>e[1]\<close>, \<open>e[2]\<close>; \<open>x()\<close>, \<open>y()\<close>, \<open>z()\<close>
  read them.  \<open>point3\<close> and \<open>color\<close> are aliases.
\<close>

datatype vec3 = Vec3 (e0: real) (e1: real) (e2: real)

type_synonym point3 = vec3
type_synonym color = vec3

instantiation vec3 :: "{zero, uminus, plus, minus, times}"
begin

definition zero_vec3 :: vec3 where
  "zero_vec3 = Vec3 0 0 0"

definition uminus_vec3 :: "vec3 \<Rightarrow> vec3" where
  "uminus_vec3 v = Vec3 (- e0 v) (- e1 v) (- e2 v)"

definition plus_vec3 :: "vec3 \<Rightarrow> vec3 \<Rightarrow> vec3" where
  "plus_vec3 u v = Vec3 (e0 u + e0 v) (e1 u + e1 v) (e2 u + e2 v)"

definition minus_vec3 :: "vec3 \<Rightarrow> vec3 \<Rightarrow> vec3" where
  "minus_vec3 u v = Vec3 (e0 u - e0 v) (e1 u - e1 v) (e2 u - e2 v)"

definition times_vec3 :: "vec3 \<Rightarrow> vec3 \<Rightarrow> vec3" where
  "times_vec3 u v = Vec3 (e0 u * e0 v) (e1 u * e1 v) (e2 u * e2 v)"

instance ..

end

text \<open>\<open>operator*(double t, const vec3 &v)\<close> and \<open>operator/(vec3 v, double t)\<close>.\<close>

definition scale :: "real \<Rightarrow> vec3 \<Rightarrow> vec3" where
  "scale t v = Vec3 (t * e0 v) (t * e1 v) (t * e2 v)"

definition vdiv :: "vec3 \<Rightarrow> real \<Rightarrow> vec3" where
  "vdiv v t = scale (1 / t) v"

definition length_squared :: "vec3 \<Rightarrow> real" where
  "length_squared v = e0 v * e0 v + e1 v * e1 v + e2 v * e2 v"

definition vlength :: "vec3 \<Rightarrow> real" where
  "vlength v = sqrt (length_squared v)"

definition dot :: "vec3 \<Rightarrow> vec3 \<Rightarrow> real" where
  "dot u v = e0 u * e0 v + e1 u * e1 v + e2 u * e2 v"

definition cross :: "vec3 \<Rightarrow> vec3 \<Rightarrow> vec3" where
  "cross u v = Vec3 (e1 u * e2 v - e2 u * e1 v)
                    (e2 u * e0 v - e0 u * e2 v)
                    (e0 u * e1 v - e1 u * e0 v)"

text \<open>
  \<open>near_zero\<close> as the source has it:
  \<^verbatim>\<open>return ( (fabs(e[0]) < s) && (fabs(e[1] < s)) && (fabs(e[2]) < s) );\<close>
  The middle operand is \<open>fabs\<close> of the comparison \<open>e[1] < s\<close>, a bool converted to
  1.0 or 0.0, and it counts as true when it is not zero.
\<close>

definition near_zero :: "vec3 \<Rightarrow> bool" where
  "near_zero v =
     (let s = 1 / 10 ^ 8 :: real in
      \<bar>e0 v\<bar> < s \<and> \<bar>if e1 v < s then 1 else 0 :: real\<bar> \<noteq> 0 \<and> \<bar>e2 v\<bar> < s)"

definition reflect :: "vec3 \<Rightarrow> vec3 \<Rightarrow> vec3" where
  "reflect v n = v - scale (2 * dot v n) n"

definition refract :: "vec3 \<Rightarrow> vec3 \<Rightarrow> real \<Rightarrow> vec3" where
  "refract uv n etai_over_etat =
     (let cos_theta = min (dot (- uv) n) 1;
          r_out_perp = scale etai_over_etat (uv + scale cos_theta n);
          r_out_parallel = scale (- sqrt \<bar>1 - length_squared r_out_perp\<bar>) n
      in r_out_perp + r_out_parallel)"

definition unit_vector :: "vec3 \<Rightarrow> vec3" where
  "unit_vector v = vdiv v (vlength v)"

text \<open>
  \<open>Qsqrt\<close>: the bit-level first guess (\<open>0x5f3759df\<close> is 1597463007, \<open>>>\<close> on a
  signed \<open>long\<close> is the arithmetic shift) and two Newton steps, every operation in
  single precision.  \<open>x2 * y * y\<close> is \<open>(x2 * y) * y\<close>.
\<close>

definition Qsqrt :: "real \<Rightarrow> real" where
  "Qsqrt t =
     (let threehalfs = 3 / 2;
          x2 = fmul t (1 / 2);
          y = t;
          i = float_bits y;
          i = 1597463007 - signed_drop_bit 1 i;
          y = float_value i;
          y = fmul y (fsub threehalfs (fmul (fmul x2 y) y));
          y = fmul y (fsub threehalfs (fmul (fmul x2 y) y))
      in y)"

text \<open>
  \<open>unit_vectorQ\<close>: \<open>v * Qsqrt((float) v.length_squared())\<close>; the cast rounds the
  double to a float, and \<open>operator*(vec3, double)\<close> is \<open>t * v\<close>.
\<close>

definition unit_vectorQ :: "vec3 \<Rightarrow> vec3" where
  "unit_vectorQ v = scale (Qsqrt (fround (length_squared v))) v"

section \<open>ray.h\<close>

record ray =
  orig :: point3
  dir :: vec3

definition ray_at :: "ray \<Rightarrow> real \<Rightarrow> point3" where
  "ray_at r t = orig r + scale t (dir r)"

section \<open>interval.h\<close>

record interval =
  min_bound :: xreal
  max_bound :: xreal

definition contains :: "interval \<Rightarrow> real \<Rightarrow> bool" where
  "contains iv x = (\<not> xless (Fin x) (min_bound iv) \<and> \<not> xless (max_bound iv) (Fin x))"

definition surrounds :: "interval \<Rightarrow> real \<Rightarrow> bool" where
  "surrounds iv x = (xless (min_bound iv) (Fin x) \<and> xless (Fin x) (max_bound iv))"

definition clamp :: "interval \<Rightarrow> real \<Rightarrow> xreal" where
  "clamp iv x =
     (if xless (Fin x) (min_bound iv) then min_bound iv
      else if xless (max_bound iv) (Fin x) then max_bound iv
      else Fin x)"

section \<open>material.h: the materials\<close>

text \<open>
  The three subclasses of \<open>material\<close> with their private fields: \<open>albedo\<close>;
  \<open>albedo\<close> and \<open>fuzz\<close>; \<open>ir\<close>.  A \<open>shared_ptr<material>\<close> that is null is \<open>None\<close>.
\<close>

datatype material = Lambertian color | Metal color real | Dielectric real

text \<open>The constructor \<open>metal(a, f)\<close> stores \<open>f < 1 ? f : 1\<close>.\<close>

definition metal :: "color \<Rightarrow> real \<Rightarrow> material" where
  "metal a f = Metal a (if f < 1 then f else 1)"

section \<open>hittableObject.h\<close>

text \<open>
  \<open>class hit_record\<close>: the fields \<open>p\<close>, \<open>t\<close>, \<open>normal\<close>, \<open>frontfacing\<close>, \<open>mat\<close>.
\<close>

record hit_record =
  hit_p :: point3
  hit_t :: real
  hit_normal :: vec3
  hit_frontfacing :: bool
  hit_mat :: "material option"

definition set_face_normal :: "hit_record \<Rightarrow> ray \<Rightarrow> vec3 \<Rightarrow> hit_record" where
  "set_face_normal rec r outward_normal =
     (let rec1 = rec\<lparr>hit_frontfacing := dot (dir r) outward_normal < 0\<rparr>
      in rec1\<lparr>hit_normal := (if hit_frontfacing rec1 then outward_normal else - outward_normal)\<rparr>)"

text \<open>
  A default-constructed \<open>hit_record\<close>: the vectors are zero and the pointer is null;
  \<open>t\<close> and \<open>frontfacing\<close> are indeterminate in C++ and are never read before they
  are written, so the value chosen here is immaterial.
\<close>

definition hit_record_init :: hit_record where
  "hit_record_init =
     \<lparr>hit_p = 0, hit_t = 0, hit_normal = 0, hit_frontfacing = False, hit_mat = None\<rparr>"

section \<open>sphere.h and hittable_list.h\<close>

text \<open>
  The two subclasses of \<open>hittableObject\<close>.  A \<open>hittable_list\<close> holds pointers to
  hittable objects, which may be lists again.  A sphere is built by
  \<open>sphere(center, radius, material)\<close>; its material pointer is taken to be valid.
\<close>

datatype hittable = Sphere point3 real material | Hittable_list "hittable list"

text \<open>
  The tail of \<open>sphere::hit\<close>, after an acceptable root has been found (the source's
  variable \<open>root\<close> is \<open>root1\<close> and, once reassigned, \<open>root2\<close>).
\<close>

definition sphere_record ::
  "point3 \<Rightarrow> real \<Rightarrow> material \<Rightarrow> ray \<Rightarrow> real \<Rightarrow> hit_record \<Rightarrow> hit_record" where
  "sphere_record center radius m r root1 rec =
     (let rec1 = rec\<lparr>hit_t := root1\<rparr>;
          rec2 = rec1\<lparr>hit_p := ray_at r root1\<rparr>;
          outward_normal = vdiv (hit_p rec2 - center) radius;
          rec3 = set_face_normal rec2 r outward_normal
      in rec3\<lparr>hit_mat := Some m\<rparr>)"

text \<open>
  \<open>sphere::hit\<close>.  The result is the returned bool and the caller's record after the
  call.  When \<open>a\<close> is zero the direction is the zero vector, so \<open>half_b\<close> and the
  discriminant are zero too and both roots are \<open>0/0\<close>, NaN: neither \<open>surrounds\<close>
  test holds and the function returns false.
\<close>

definition sphere_hit ::
  "point3 \<Rightarrow> real \<Rightarrow> material \<Rightarrow> ray \<Rightarrow> interval \<Rightarrow> hit_record \<Rightarrow> bool \<times> hit_record" where
  "sphere_hit center radius m r ray_t rec =
     (let oc = orig r - center;
          a = length_squared (dir r);
          half_b = dot (dir r) oc;
          c = length_squared oc - radius * radius;
          discriminant = half_b * half_b - a * c;
          d_sqrt = sqrt discriminant
      in if discriminant < 0 then (False, rec)
         else if a = 0 then (False, rec)
         else let root1 = (- half_b - d_sqrt) / a
              in if \<not> surrounds ray_t root1
                 then let root2 = (- half_b + d_sqrt) / a
                      in if \<not> surrounds ray_t root2 then (False, rec)
                         else (True, sphere_record center radius m r root2 rec)
                 else (True, sphere_record center radius m r root1 rec))"

text \<open>
  \<open>hittable_list::hit\<close> with its loop: \<open>hit_loop\<close> carries the locals \<open>tmp\<close>,
  \<open>hit_anything\<close>, \<open>closest_so_far\<close> and the caller's \<open>rec\<close> over the remaining objects.
\<close>

fun hit :: "hittable \<Rightarrow> ray \<Rightarrow> interval \<Rightarrow> hit_record \<Rightarrow> bool \<times> hit_record"
  and hit_loop :: "hittable list \<Rightarrow> ray \<Rightarrow> xreal \<Rightarrow> hit_record \<Rightarrow> bool \<Rightarrow> xreal
                    \<Rightarrow> hit_record \<Rightarrow> bool \<times> hit_record" where
  "hit (Sphere center radius m) r ray_t rec = sphere_hit center radius m r ray_t rec"
| "hit (Hittable_list scene_objects) r ray_t rec =
     hit_loop scene_objects r (min_bound ray_t) hit_record_init False (max_bound ray_t) rec"
| "hit_loop [] r lo tmp hit_anything closest_so_far rec = (hit_anything, rec)"
| "hit_loop (obj # objs) r lo tmp hit_anything closest_so_far rec =
     (case hit obj r \<lparr>min_bound = lo, max_bound = closest_so_far\<rparr> tmp of
        (True, tmp') \<Rightarrow> hit_loop objs r lo tmp' True (Fin (hit_t tmp')) tmp'
      | (False, tmp') \<Rightarrow> hit_loop objs r lo tmp' hit_anything closest_so_far rec)"

section \<open>Random numbers\<close>

text \<open>
  \<open>rtweekend.h\<close>, which defines \<open>random_double()\<close>, \<open>random_double(min, max)\<close> and
  \<open>infinity\<close>, is not among the sources.  The two generators are parameters: a
  generator state of any type \<open>'g\<close>, and for each function the value drawn and the
  next state.  \<open>infinity\<close> is \<open>PInf\<close>.
\<close>

record 'g random_source =
  random_double :: "'g \<Rightarrow> real \<times> 'g"
  random_double_range :: "real \<Rightarrow> real \<Rightarrow> 'g \<Rightarrow> real \<times> 'g"

text \<open>
  \<open>vec3::random(min, max)\<close>.  C++ leaves the order of the three draws open; the
  model draws the components from left to right.
\<close>

definition vec3_random :: "'g random_source \<Rightarrow> real \<Rightarrow> real \<Rightarrow> 'g \<Rightarrow> vec3 \<times> 'g" where
  "vec3_random R lo hi g =
     (case random_double_range R lo hi g of (a, g1) \<Rightarrow>
      case random_double_range R lo hi g1 of (b, g2) \<Rightarrow>
      case random_double_range R lo hi g2 of (c, g3) \<Rightarrow> (Vec3 a b c, g3))"

text \<open>
  \<open>random_in_unit_sphere\<close> draws until a sample lies in the unit sphere.  The loop
  need not end: \<open>None\<close> is the run that never returns.
\<close>

partial_function (option) random_in_unit_sphere ::
  "'g random_source \<Rightarrow> 'g \<Rightarrow> (vec3 \<times> 'g) option" where
  "random_in_unit_sphere R g =
     (case vec3_random R (- 1) 1 g of (p, g') \<Rightarrow>
        if length_squared p < 1 then Some (p, g') else random_in_unit_sphere R g')"

definition random_unit_vector :: "'g random_source \<Rightarrow> 'g \<Rightarrow> (vec3 \<times> 'g) option" where
  "random_unit_vector R g =
     (case random_in_unit_sphere R g of None \<Rightarrow> None
      | Some (p, g') \<Rightarrow> Some (unit_vectorQ p, g'))"

section \<open>material.h: scatter\<close>

text \<open>
  \<open>scatter(r, rec, attenuation, scattered)\<close> returns a bool and writes to the two
  reference parameters.  The model takes their values before the call and the
  generator state, and gives the bool, their values after the call and the next
  state; \<open>None\<close> when a sampling loop inside never returns.
\<close>

definition lambertian_scatter ::
  "'g random_source \<Rightarrow> color \<Rightarrow> ray \<Rightarrow> hit_record \<Rightarrow> color \<Rightarrow> ray \<Rightarrow> 'g
     \<Rightarrow> (bool \<times> color \<times> ray \<times> 'g) option" where
  "lambertian_scatter R albedo r rec attenuation scattered g =
     (case random_double R g of (does_it_scatter, g1) \<Rightarrow>
        if does_it_scatter < 1
        then (case random_unit_vector R g1 of None \<Rightarrow> None
              | Some (u, g2) \<Rightarrow>
                  let scatter_dir = hit_normal rec + u;
                      scatter_dir' = (if near_zero scatter_dir then hit_normal rec else scatter_dir);
                      scattered' = \<lparr>orig = hit_p rec, dir = scatter_dir'\<rparr>;
                      attenuation' = vdiv albedo 1
                  in Some (True, attenuation', scattered', g2))
        else Some (False, attenuation, scattered, g1))"

definition metal_scatter ::
  "'g random_source \<Rightarrow> color \<Rightarrow> real \<Rightarrow> ray \<Rightarrow> hit_record \<Rightarrow> color \<Rightarrow> ray \<Rightarrow> 'g
     \<Rightarrow> (bool \<times> color \<times> ray \<times> 'g) option" where
  "metal_scatter R albedo fuzz r rec attenuation scattered g =
     (case random_double R g of (does_it_scatter, g1) \<Rightarrow>
        if does_it_scatter < 1
        then let reflected = reflect (unit_vectorQ (dir r)) (hit_normal rec)
             in (case random_unit_vector R g1 of None \<Rightarrow> None
                 | Some (u, g2) \<Rightarrow>
                     let scattered' = \<lparr>orig = hit_p rec, dir = reflected + scale fuzz u\<rparr>;
                         attenuation' = vdiv albedo 1
                     in Some (0 < dot (dir scattered') (hit_normal rec), attenuation', scattered', g2))
        else Some (False, attenuation, scattered, g1))"

definition reflectance :: "real \<Rightarrow> real \<Rightarrow> real" where
  "reflectance cosine ref_idx =
     (let r0 = (1 - ref_idx) / (1 + ref_idx);
          r0' = r0 * r0
      in r0' + (1 - r0') * (1 - cosine) ^ 5)"

text \<open>
  \<open>dielectric::scatter\<close>.  \<open>sin_theta\<close> is \<open>sqrt(1.0 - cos_theta*cos_theta)\<close>, NaN
  when the argument is negative, and then \<open>refraction_ratio * sin_theta > 1.0\<close> is
  false.  \<open>||\<close> does not evaluate \<open>random_double()\<close> when \<open>cannot_refract\<close> holds.
\<close>

definition cannot_refract :: "real \<Rightarrow> real \<Rightarrow> bool" where
  "cannot_refract refraction_ratio cos_theta =
     (0 \<le> 1 - cos_theta * cos_theta \<and> 1 < refraction_ratio * sqrt (1 - cos_theta * cos_theta))"

definition dielectric_scatter ::
  "'g random_source \<Rightarrow> real \<Rightarrow> ray \<Rightarrow> hit_record \<Rightarrow> color \<Rightarrow> ray \<Rightarrow> 'g
     \<Rightarrow> (bool \<times> color \<times> ray \<times> 'g) option" where
  "dielectric_scatter R ir r rec attenuation scattered g =
     (let attenuation' = Vec3 1 1 1;
          refraction_ratio = (if hit_frontfacing rec then 1 / ir else ir);
          unit_direction = unit_vectorQ (dir r);
          cos_theta = min (dot (- unit_direction) (hit_normal rec)) 1
      in if cannot_refract refraction_ratio cos_theta
         then Some (True, attenuation',
                    \<lparr>orig = hit_p rec, dir = reflect unit_direction (hit_normal rec)\<rparr>, g)
         else (case random_double R g of (x, g1) \<Rightarrow>
                 let direction = (if reflectance cos_theta refraction_ratio > x
                                  then reflect unit_direction (hit_normal rec)
                                  else refract unit_direction (hit_normal rec) refraction_ratio)
                 in Some (True, attenuation', \<lparr>orig = hit_p rec, dir = direction\<rparr>, g1)))"

text \<open>The virtual call \<open>mat->scatter(...)\<close>.\<close>

fun scatter ::
  "'g random_source \<Rightarrow> material \<Rightarrow> ray \<Rightarrow> hit_record \<Rightarrow> color \<Rightarrow> ray \<Rightarrow> 'g
     \<Rightarrow> (bool \<times> color \<times> ray \<times> 'g) option" where
  "scatter R (Lambertian albedo) r rec attenuation scattered g =
     lambertian_scatter R albedo r rec attenuation scattered g"
| "scatter R (Metal albedo fuzz) r rec attenuation scattered g =
     metal_scatter R albedo fuzz r rec attenuation scattered g"
| "scatter R (Dielectric ir) r rec attenuation scattered g =
     dielectric_scatter R ir r rec attenuation scattered g"

section \<open>camera.h: ray_color\<close>

text \<open>
  \<open>camera::ray_color(r, depth, world)\<close>, with the generator state threaded through.
  The result is \<open>None\<close> when a sampling loop never returns, \<open>Some (Inl NullMaterial)\<close>
  when \<open>rec.mat\<close> is null at \<open>rec.mat->scatter\<close>, and otherwise the colour and the
  next generator state.  The locals \<open>scattered\<close> and \<open>attenuation\<close> start
  default-constructed, all zero.
\<close>

datatype error = NullMaterial

function ray_color ::
  "'g random_source \<Rightarrow> ray \<Rightarrow> int \<Rightarrow> hittable \<Rightarrow> 'g \<Rightarrow> (error + color \<times> 'g) option" where
  "ray_color R r depth world g =
     (if depth \<le> 0 then Some (Inr (Vec3 0 0 0, g))
      else case hit world r \<lparr>min_bound = Fin 0.001, max_bound = PInf\<rparr> hit_record_init of
        (True, rec) \<Rightarrow>
          (case hit_mat rec of
             None \<Rightarrow> Some (Inl NullMaterial)
           | Some m \<Rightarrow>
               (case scatter R m r rec 0 \<lparr>orig = 0, dir = 0\<rparr> g of
                  None \<Rightarrow> None
                | Some (True, attenuation, scattered, g1) \<Rightarrow>
                    (case ray_color R scattered (depth - 1) world g1 of
                       None \<Rightarrow> None
                     | Some (Inl e) \<Rightarrow> Some (Inl e)
                     | Some (Inr (c, g2)) \<Rightarrow> Some (Inr (attenuation * c, g2)))
                | Some (False, attenuation, scattered, g1) \<Rightarrow> Some (Inr (Vec3 0 0 0, g1))))
      | (False, rec) \<Rightarrow>
          let unit_dir = unit_vectorQ (dir r);
              a = 0.5 * (e1 unit_dir + 1)
          in Some (Inr (scale (1 - a) (Vec3 1 1 1) + scale a (Vec3 0.5 0.7 1), g)))"
  by pat_completeness auto
termination
  by (relation "measure (\<lambda>(R, r, depth, world, g). nat depth)") auto

section \<open>color.h\<close>

text \<open>
  The decimal digits \<open>operator<<\<close> prints for an \<open>int\<close> that is not negative (the
  only ones \<open>write_color\<close> prints).
\<close>

fun decimal :: "nat \<Rightarrow> string" where
  "decimal n =
     (if n < 10 then [''0123456789'' ! n]
      else decimal (n div 10) @ [''0123456789'' ! (n mod 10)])"

text \<open>\<open>static_cast<int>\<close> of a double truncates towards zero.\<close>

definition truncate :: "real \<Rightarrow> int" where
  "truncate x = (if 0 \<le> x then \<lfloor>x\<rfloor> else \<lceil>x\<rceil>)"

text \<open>
  One channel of \<open>write_color\<close>: multiply by \<open>scale\<close> (here \<open>scale'\<close>), \<open>linear_to_gamma\<close>, clamp to \<open>intensity\<close>,
  multiply by 255.999 and cast.  \<open>None\<close> is the cast of NaN, which C++ leaves
  undefined; NaN arises from the square root of a negative number and, when
  \<open>samples_per_pixel\<close> is zero and \<open>scale\<close> infinite, from \<open>0 * scale\<close>.
\<close>

definition intensity :: interval where
  "intensity = \<lparr>min_bound = Fin 0.000, max_bound = Fin 0.999\<rparr>"

definition channel :: "real \<Rightarrow> int \<Rightarrow> int option" where
  "channel v samples_per_pixel =
     (if samples_per_pixel = 0
      then (if 0 < v then Some (truncate (255.999 * 0.999)) else None)
      else let scale' = 1 / of_int samples_per_pixel;
               r = v * scale'
           in if r < 0 then None
              else (case clamp intensity (sqrt r) of
                      Fin c \<Rightarrow> Some (truncate (255.999 * c))
                    | _ \<Rightarrow> None))"

text \<open>
  \<open>write_color(out, pixel_color, samples_per_pixel)\<close>: the stream is the string of
  the characters written so far.
\<close>

definition write_color :: "string \<Rightarrow> color \<Rightarrow> int \<Rightarrow> string option" where
  "write_color out pixel_color samples_per_pixel =
     (case (channel (e0 pixel_color) samples_per_pixel,
            channel (e1 pixel_color) samples_per_pixel,
            channel (e2 pixel_color) samples_per_pixel) of
        (Some r, Some g, Some b) \<Rightarrow>
          Some (out @ decimal (nat r) @ '' '' @ decimal (nat g) @ '' '' @ decimal (nat b) @ [CHR 0x0A])
      | _ \<Rightarrow> None)"

section \<open>Notions used in the statements and proofs\<close>

text \<open>
  \<open>first_hit obj r lo\<close> is the record \<open>obj\<close> reports for the ray \<open>r\<close> when the
  interval has the lower bound \<open>lo\<close> and no upper bound, if it reports one.
\<close>

definition first_hit :: "hittable \<Rightarrow> ray \<Rightarrow> xreal \<Rightarrow> hit_record option" where
  "first_hit obj r lo =
     (case hit obj r \<lparr>min_bound = lo, max_bound = PInf\<rparr> hit_record_init of
        (True, h) \<Rightarrow> Some h
      | (False, h) \<Rightarrow> None)"

text \<open>
  \<open>nearest\<close> picks from a list of optional records the first one with the least \<open>t\<close>.
\<close>

fun nearest :: "hit_record option list \<Rightarrow> hit_record option" where
  "nearest [] = None"
| "nearest (None # hs) = nearest hs"
| "nearest (Some h # hs) =
     (case nearest hs of
        None \<Rightarrow> Some h
      | Some h' \<Rightarrow> if hit_t h' < hit_t h then Some h' else Some h)"

text \<open>
  For the examples: a random source without state whose \<open>random_double()\<close> is
  always \<open>c\<close> and whose \<open>random_double(min, max)\<close> is \<open>min + (max - min) * c\<close>.
\<close>

definition constant_source :: "real \<Rightarrow> unit random_source" where
  "constant_source c =
     \<lparr>random_double = (\<lambda>g. (c, g)),
      random_double_range = (\<lambda>lo hi g. (lo + (hi - lo) * c, g))\<rparr>"

text \<open>No sphere of the object has radius zero (the spec wants every radius positive).\<close>

fun nonzero_radius :: "hittable \<Rightarrow> bool" where
  "nonzero_radius (Sphere center radius m) = (radius \<noteq> 0)"
| "nonzero_radius (Hittable_list scene_objects) = list_all nonzero_radius scene_objects"


text \<open>
  The equations of \<open>ray_color\<close> and \<open>decimal\<close> are unfolded by hand in the proofs.
\<close>

declare ray_color.simps [simp del]

declare decimal.simps [simp del]

section \<open>vec3::near_zero\<close>

text \<open>What \<open>near_zero\<close> computes: the second component is only bounded from above.\<close>

lemma near_zero_iff:
  "near_zero v \<longleftrightarrow> \<bar>e0 v\<bar> < 1 / 10 ^ 8 \<and> e1 v < 1 / 10 ^ 8 \<and> \<bar>e2 v\<bar> < 1 / 10 ^ 8"
  by (simp add: near_zero_def Let_def)

text \<open>
  Claim C5 says that \<open>near_zero\<close> holds exactly when all three components have an
  absolute value below \<open>1e-8\<close>.  On \<open>vec3(0, -1, 0)\<close> the function returns true
  although the second component has absolute value one.
\<close>

theorem near_zero_negative_component:
  "near_zero (Vec3 0 (- 1) 0) \<and> \<not> \<bar>e1 (Vec3 0 (- 1) 0)\<bar> < 1 / 10 ^ 8"
  by (simp add: near_zero_def)

section \<open>sphere::hit and hittable_list::hit\<close>

lemma xless_Fin_mono: "a \<le> b \<Longrightarrow> xless (Fin b) c \<Longrightarrow> xless (Fin a) c"
  by (cases c) auto

lemma xless_mono_Fin: "a \<le> b \<Longrightarrow> xless c (Fin a) \<Longrightarrow> xless c (Fin b)"
  by (cases c) auto

lemma sphere_record_indep:
  "sphere_record center radius m r t rec = sphere_record center radius m r t rec2"
  by (cases rec; cases rec2) (simp add: sphere_record_def set_face_normal_def Let_def)

lemma sphere_record_simps [simp]:
  "hit_t (sphere_record center radius m r t rec) = t"
  "hit_p (sphere_record center radius m r t rec) = ray_at r t"
  "hit_mat (sphere_record center radius m r t rec) = Some m"
  by (simp_all add: sphere_record_def set_face_normal_def Let_def)

lemma sphere_roots_le:
  assumes "0 \<le> d" "a \<noteq> 0" "a = length_squared v"
  shows "(- b - sqrt d) / a \<le> (- b + sqrt d) / a"
proof -
  have "0 \<le> a" using assms(3) by (simp add: length_squared_def)
  with assms(2) have "0 < a" by simp
  moreover have "- b - sqrt d \<le> - b + sqrt d" using assms(1) by simp
  ultimately show ?thesis by (simp add: divide_right_mono)
qed

lemma sphere_hit_threshold:
  "sphere_hit center radius m r \<lparr>min_bound = lo, max_bound = cu\<rparr> tmp =
     (case first_hit (Sphere center radius m) r lo of
        None \<Rightarrow> (False, tmp)
      | Some h \<Rightarrow> if xless (Fin (hit_t h)) cu then (True, h) else (False, tmp))"
proof -
  define a where "a = length_squared (dir r)"
  define hb where "hb = dot (dir r) (orig r - center)"
  define d where "d = hb * hb - a * (length_squared (orig r - center) - radius * radius)"
  show ?thesis
  proof (cases "d < 0 \<or> a = 0")
    case True
    then show ?thesis
      by (auto simp: first_hit_def sphere_hit_def Let_def a_def hb_def d_def)
  next
    case False
    then have le: "(- hb - sqrt d) / a \<le> (- hb + sqrt d) / a"
      using sphere_roots_le [of d a "dir r" hb] by (simp add: a_def)
    note mono = xless_Fin_mono [OF le]
    from False le show ?thesis
      using mono [of cu] sphere_record_indep [of center radius m r _ tmp hit_record_init]
      unfolding first_hit_def sphere_hit_def Let_def a_def [symmetric] hb_def [symmetric] d_def [symmetric] hit.simps surrounds_def
      by (auto simp: a_def [symmetric] hb_def [symmetric] d_def [symmetric])
  qed
qed


lemma hit_loop_threshold:
  assumes members: "\<And>obj lo cu tmp. obj \<in> set objs \<Longrightarrow>
      hit obj r \<lparr>min_bound = lo, max_bound = cu\<rparr> tmp =
        (case first_hit obj r lo of
           None \<Rightarrow> (False, tmp)
         | Some h \<Rightarrow> if xless (Fin (hit_t h)) cu then (True, h) else (False, tmp))"
  shows "hit_loop objs r lo tmp hit_anything closest_so_far rec =
     (case nearest (map (\<lambda>obj. first_hit obj r lo) objs) of
        None \<Rightarrow> (hit_anything, rec)
      | Some h \<Rightarrow> if xless (Fin (hit_t h)) closest_so_far then (True, h) else (hit_anything, rec))"
  using members
proof (induction objs arbitrary: tmp hit_anything closest_so_far rec)
  case Nil
  then show ?case by simp
next
  case (Cons obj objs)
  have IH: "\<And>tmp ha c rec. hit_loop objs r lo tmp ha c rec =
     (case nearest (map (\<lambda>obj. first_hit obj r lo) objs) of
        None \<Rightarrow> (ha, rec)
      | Some h \<Rightarrow> if xless (Fin (hit_t h)) c then (True, h) else (ha, rec))"
    using Cons.IH Cons.prems by simp
  have step: "hit obj r \<lparr>min_bound = lo, max_bound = closest_so_far\<rparr> tmp =
        (case first_hit obj r lo of
           None \<Rightarrow> (False, tmp)
         | Some h \<Rightarrow> if xless (Fin (hit_t h)) closest_so_far then (True, h) else (False, tmp))"
    using Cons.prems by simp
  show ?case
  proof (cases "first_hit obj r lo")
    case None
    then show ?thesis by (simp add: step IH)
  next
    case (Some h1)
    note first = Some
    show ?thesis
    proof (cases "nearest (map (\<lambda>obj. first_hit obj r lo) objs)")
      case None
      then show ?thesis using first by (simp add: step IH)
    next
      case (Some h2)
      note rest = Some
      show ?thesis
      proof (cases "hit_t h2 < hit_t h1")
        case True
        then have "xless (Fin (hit_t h1)) closest_so_far \<Longrightarrow> xless (Fin (hit_t h2)) closest_so_far"
          using xless_Fin_mono [of "hit_t h2" "hit_t h1" closest_so_far] by simp
        then show ?thesis using first rest True by (auto simp: step IH)
      next
        case False
        then have "xless (Fin (hit_t h2)) closest_so_far \<Longrightarrow> xless (Fin (hit_t h1)) closest_so_far"
          using xless_Fin_mono [of "hit_t h1" "hit_t h2" closest_so_far] by simp
        then show ?thesis using first rest False by (auto simp: step IH)
      qed
    qed
  qed
qed

lemma hit_threshold:
  "hit obj r \<lparr>min_bound = lo, max_bound = cu\<rparr> tmp =
     (case first_hit obj r lo of
        None \<Rightarrow> (False, tmp)
      | Some h \<Rightarrow> if xless (Fin (hit_t h)) cu then (True, h) else (False, tmp))"
proof (induction obj arbitrary: lo cu tmp)
  case (Sphere center radius m)
  show ?case using sphere_hit_threshold [of center radius m r lo cu tmp] by simp
next
  case (Hittable_list objs)
  have loop: "\<And>tmp ha c rec. hit_loop objs r lo tmp ha c rec =
     (case nearest (map (\<lambda>obj. first_hit obj r lo) objs) of
        None \<Rightarrow> (ha, rec)
      | Some h \<Rightarrow> if xless (Fin (hit_t h)) c then (True, h) else (ha, rec))"
    by (rule hit_loop_threshold) (rule Hittable_list.IH)
  have "first_hit (Hittable_list objs) r lo = nearest (map (\<lambda>obj. first_hit obj r lo) objs)"
    by (simp add: first_hit_def [of "Hittable_list objs"] loop split: option.splits)
  then show ?case by (simp add: loop)
qed

lemma first_hit_list:
  "first_hit (Hittable_list objs) r lo = nearest (map (\<lambda>obj. first_hit obj r lo) objs)"
proof -
  have "hit_loop objs r lo tmp ha c rec =
     (case nearest (map (\<lambda>obj. first_hit obj r lo) objs) of
        None \<Rightarrow> (ha, rec)
      | Some h \<Rightarrow> if xless (Fin (hit_t h)) c then (True, h) else (ha, rec))" for tmp ha c rec
    by (rule hit_loop_threshold) (rule hit_threshold)
  then show ?thesis
    by (simp add: first_hit_def [of "Hittable_list objs"] split: option.splits)
qed

lemma hit_interval:
  "hit obj r ray_t tmp =
     (case first_hit obj r (min_bound ray_t) of
        None \<Rightarrow> (False, tmp)
      | Some h \<Rightarrow> if xless (Fin (hit_t h)) (max_bound ray_t) then (True, h) else (False, tmp))"
proof -
  obtain lo cu where "ray_t = \<lparr>min_bound = lo, max_bound = cu\<rparr>"
    by (cases ray_t)
  then show ?thesis
    by (auto simp: hit_threshold split: option.splits)
qed

lemma nearest_None: "nearest hs = None \<Longrightarrow> h \<in> set hs \<Longrightarrow> h = None"
  by (induction hs rule: nearest.induct) (auto split: option.splits if_splits)

lemma nearest_Some:
  "nearest hs = Some h \<Longrightarrow>
     \<exists>i<length hs. hs ! i = Some h
       \<and> (\<forall>j<i. \<forall>h'. hs ! j = Some h' \<longrightarrow> hit_t h < hit_t h')
       \<and> (\<forall>j<length hs. \<forall>h'. hs ! j = Some h' \<longrightarrow> hit_t h \<le> hit_t h')"
proof (induction hs arbitrary: h rule: nearest.induct)
  case 1
  then show ?case by simp
next
  case (2 hs)
  then obtain i where i: "i < length hs" "hs ! i = Some h"
    "\<forall>j<i. \<forall>h'. hs ! j = Some h' \<longrightarrow> hit_t h < hit_t h'"
    "\<forall>j<length hs. \<forall>h'. hs ! j = Some h' \<longrightarrow> hit_t h \<le> hit_t h'"
    by auto
  show ?case
  proof (intro exI [of _ "Suc i"] conjI allI impI)
    show "Suc i < length (None # hs)" using i by simp
    show "(None # hs) ! Suc i = Some h" using i by simp
    show "hit_t h < hit_t h'" if "j < Suc i" "(None # hs) ! j = Some h'" for j h'
      using that i(3) by (cases j) auto
    show "hit_t h \<le> hit_t h'" if "j < length (None # hs)" "(None # hs) ! j = Some h'" for j h'
      using that i(4) by (cases j) auto
  qed
next
  case (3 h1 hs)
  show ?case
  proof (cases "nearest hs")
    case None
    then have h: "h = h1" using "3.prems" by simp
    have none: "hs ! j = None" if "j < length hs" for j
      using nearest_None [OF None, of "hs ! j"] that by simp
    show ?thesis
    proof (intro exI [of _ 0] conjI allI impI)
      show "hit_t h \<le> hit_t h'" if "j < length (Some h1 # hs)" "(Some h1 # hs) ! j = Some h'" for j h'
        using that none h by (cases j) auto
    qed (simp_all add: h)
  next
    case (Some h2)
    from "3.IH" [OF Some] obtain i where i: "i < length hs" "hs ! i = Some h2"
      "\<forall>j<i. \<forall>h'. hs ! j = Some h' \<longrightarrow> hit_t h2 < hit_t h'"
      "\<forall>j<length hs. \<forall>h'. hs ! j = Some h' \<longrightarrow> hit_t h2 \<le> hit_t h'"
      by auto
    show ?thesis
    proof (cases "hit_t h2 < hit_t h1")
      case True
      then have h: "h = h2" using "3.prems" Some by simp
      show ?thesis
      proof (intro exI [of _ "Suc i"] conjI allI impI)
        show "Suc i < length (Some h1 # hs)" using i by simp
        show "(Some h1 # hs) ! Suc i = Some h" using i h by simp
        show "hit_t h < hit_t h'" if "j < Suc i" "(Some h1 # hs) ! j = Some h'" for j h'
          using that i(3) True h by (cases j) auto
        show "hit_t h \<le> hit_t h'" if "j < length (Some h1 # hs)" "(Some h1 # hs) ! j = Some h'" for j h'
          using that i(4) True h by (cases j) auto
      qed
    next
      case False
      then have h: "h = h1" using "3.prems" Some by simp
      show ?thesis
      proof (intro exI [of _ 0] conjI allI impI)
        show "hit_t h \<le> hit_t h'" if "j < length (Some h1 # hs)" "(Some h1 # hs) ! j = Some h'" for j h'
          using that i(4) False h by (cases j) fastforce+
      qed (simp_all add: h)
    qed
  qed
qed


lemma length_squared_vdiv: "length_squared (vdiv v k) = length_squared v / (k * k)"
proof -
  have "(1 / k * x) * (1 / k * x) = x * x / (k * k)" for x :: real
    by simp
  then show ?thesis
    by (simp add: length_squared_def vdiv_def scale_def add_divide_distrib)
qed

lemma length_squared_uminus [simp]: "length_squared (- v) = length_squared v"
  by (simp add: length_squared_def uminus_vec3_def)

lemma dot_uminus_right [simp]: "dot u (- v) = - dot u v"
  by (simp add: dot_def uminus_vec3_def)

lemma on_sphere:
  assumes a: "a = length_squared d" and hb: "hb = dot d oc"
    and s: "s * s = hb * hb - a * (length_squared oc - k * k)"
    and t: "a * t = - hb + s \<or> a * t = - hb - s" and a0: "a \<noteq> 0"
  shows "length_squared (oc + scale t d) = k * k"
proof -
  have expand: "length_squared (oc + scale t d) = length_squared oc + 2 * t * hb + t * t * a"
    by (simp add: a hb length_squared_def dot_def plus_vec3_def scale_def algebra_simps)
  from t have "a * t + hb = s \<or> a * t + hb = - s"
    by auto
  then have sq: "(a * t + hb) * (a * t + hb) = s * s"
    by auto
  have "(a * t + hb) * (a * t + hb) = (a * t) * (a * t) + 2 * hb * (a * t) + hb * hb"
    by (simp add: algebra_simps)
  with sq s have "(a * t) * (a * t) + 2 * hb * (a * t) + a * (length_squared oc - k * k) = 0"
    by simp
  then have "a * (t * t * a + 2 * t * hb + (length_squared oc - k * k)) = 0"
    by (simp add: algebra_simps)
  with a0 have "t * t * a + 2 * t * hb + (length_squared oc - k * k) = 0"
    by simp
  with expand show ?thesis by simp
qed

lemma sphere_record_normal:
  assumes k: "radius \<noteq> 0"
    and on: "length_squared (ray_at r t - center) = radius * radius"
  shows "vlength (hit_normal (sphere_record center radius m r t rec)) = 1"
    and "dot (dir r) (hit_normal (sphere_record center radius m r t rec)) \<le> 0"
    and "hit_normal (sphere_record center radius m r t rec) = vdiv (ray_at r t - center) radius
       \<or> hit_normal (sphere_record center radius m r t rec) = - vdiv (ray_at r t - center) radius"
proof -
  have "length_squared (vdiv (ray_at r t - center) radius) = 1"
    using k on by (simp add: length_squared_vdiv)
  then show "vlength (hit_normal (sphere_record center radius m r t rec)) = 1"
    by (simp add: sphere_record_def set_face_normal_def Let_def vlength_def)
  show "dot (dir r) (hit_normal (sphere_record center radius m r t rec)) \<le> 0"
    by (simp add: sphere_record_def set_face_normal_def Let_def)
  show "hit_normal (sphere_record center radius m r t rec) = vdiv (ray_at r t - center) radius
       \<or> hit_normal (sphere_record center radius m r t rec) = - vdiv (ray_at r t - center) radius"
    by (simp add: sphere_record_def set_face_normal_def Let_def)
qed

lemma ray_at_minus: "ray_at r t - center = (orig r - center) + scale t (dir r)"
  by (simp add: ray_at_def plus_vec3_def minus_vec3_def scale_def)

lemma sphere_hit_on_sphere:
  assumes "sphere_hit center radius m r ray_t rec = (True, rec')"
  shows "\<exists>t. rec' = sphere_record center radius m r t rec
           \<and> length_squared (ray_at r t - center) = radius * radius"
proof -
  define a where "a = length_squared (dir r)"
  define hb where "hb = dot (dir r) (orig r - center)"
  define d where "d = hb * hb - a * (length_squared (orig r - center) - radius * radius)"
  from assms have d0: "0 \<le> d" and a0: "a \<noteq> 0"
    by (auto simp: sphere_hit_def Let_def a_def hb_def d_def split: if_splits)
  have s: "sqrt d * sqrt d = hb * hb - a * (length_squared (orig r - center) - radius * radius)"
    using d0 by (simp add: d_def)
  from assms a0 d0 consider
      "rec' = sphere_record center radius m r ((- hb - sqrt d) / a) rec"
    | "rec' = sphere_record center radius m r ((- hb + sqrt d) / a) rec"
    by (auto simp: sphere_hit_def Let_def a_def hb_def d_def split: if_splits)
  then show ?thesis
  proof cases
    case 1
    have "a * ((- hb - sqrt d) / a) = - hb - sqrt d" using a0 by simp
    then have "length_squared ((orig r - center) + scale ((- hb - sqrt d) / a) (dir r)) = radius * radius"
      using on_sphere [OF a_def hb_def s _ a0, of "(- hb - sqrt d) / a"] by simp
    with 1 show ?thesis by (auto simp: ray_at_minus)
  next
    case 2
    have "a * ((- hb + sqrt d) / a) = - hb + sqrt d" using a0 by simp
    then have "length_squared ((orig r - center) + scale ((- hb + sqrt d) / a) (dir r)) = radius * radius"
      using on_sphere [OF a_def hb_def s _ a0, of "(- hb + sqrt d) / a"] by simp
    with 2 show ?thesis by (auto simp: ray_at_minus)
  qed
qed

lemma sphere_hit_normal:
  assumes "radius \<noteq> 0" "sphere_hit center radius m r ray_t rec = (True, rec')"
  shows "vlength (hit_normal rec') = 1 \<and> dot (dir r) (hit_normal rec') \<le> 0
    \<and> (hit_normal rec' = vdiv (hit_p rec' - center) radius
        \<or> hit_normal rec' = - vdiv (hit_p rec' - center) radius)"
proof -
  from sphere_hit_on_sphere [OF assms(2)] obtain t where
    t: "rec' = sphere_record center radius m r t rec"
       "length_squared (ray_at r t - center) = radius * radius" by blast
  show ?thesis
    using sphere_record_normal [OF assms(1) t(2), of m rec] by (simp add: t(1))
qed

lemma first_hit_Some_iff:
  "first_hit obj r lo = Some h \<longleftrightarrow> hit obj r \<lparr>min_bound = lo, max_bound = PInf\<rparr> hit_record_init = (True, h)"
  by (auto simp: first_hit_def split: prod.splits bool.splits)

lemma first_hit_normal:
  "nonzero_radius obj \<Longrightarrow> first_hit obj r lo = Some h \<Longrightarrow>
     vlength (hit_normal h) = 1 \<and> dot (dir r) (hit_normal h) \<le> 0"
proof (induction obj arbitrary: h)
  case (Sphere center radius m)
  then show ?case
    using sphere_hit_normal [of radius center m r _ hit_record_init h]
    by (simp add: first_hit_Some_iff)
next
  case (Hittable_list objs)
  from Hittable_list.prems(2) have "nearest (map (\<lambda>obj. first_hit obj r lo) objs) = Some h"
    by (simp add: first_hit_list)
  from nearest_Some [OF this] obtain i where "i < length objs" "first_hit (objs ! i) r lo = Some h"
    by auto
  moreover have "nonzero_radius (objs ! i)"
    using Hittable_list.prems(1) \<open>i < length objs\<close> by (simp add: list_all_length)
  ultimately show ?case
    using Hittable_list.IH [of "objs ! i" h] by simp
qed

text \<open>
  Claim C3.  For an object whose spheres have a radius other than zero, every record
  reported by \<open>hit\<close>, of a sphere or of a list, has a normal of length one that
  satisfies \<open>dot(r.direction(), normal) \<le> 0\<close>; for a sphere the normal is
  \<open>(p - center) / radius\<close> or its negation.
\<close>

theorem hit_normal_invariant:
  assumes "nonzero_radius world" and "hit world r ray_t rec = (True, rec')"
  shows "vlength (hit_normal rec') = 1 \<and> dot (dir r) (hit_normal rec') \<le> 0
    \<and> (\<forall>center radius m. world = Sphere center radius m \<longrightarrow>
          hit_normal rec' = vdiv (hit_p rec' - center) radius
        \<or> hit_normal rec' = - vdiv (hit_p rec' - center) radius)"
proof -
  from assms(2) have "first_hit world r (min_bound ray_t) = Some rec'"
    by (simp add: hit_interval [of world r ray_t rec] split: option.splits if_splits)
  from first_hit_normal [OF assms(1) this]
  have "vlength (hit_normal rec') = 1" and "dot (dir r) (hit_normal rec') \<le> 0"
    by simp_all
  moreover have "hit_normal rec' = vdiv (hit_p rec' - center) radius
        \<or> hit_normal rec' = - vdiv (hit_p rec' - center) radius"
    if "world = Sphere center radius m" for center radius m
    using assms that sphere_hit_normal [of radius center m r ray_t rec rec'] by simp
  ultimately show ?thesis by blast
qed

text \<open>
  Claim C7.  When \<open>hittable_list::hit\<close> returns false the caller's record is what it
  was before the call; when it returns true the record is one that a member reports
  for the same ray and interval.
\<close>

theorem hittable_list_hit_frame:
  assumes "hit (Hittable_list scene_objects) r ray_t rec = (b, rec')"
  shows "(\<not> b \<longrightarrow> rec' = rec)
       \<and> (b \<longrightarrow> (\<exists>obj\<in>set scene_objects. \<forall>tmp. hit obj r ray_t tmp = (True, rec')))"
proof (cases b)
  case False
  with assms show ?thesis
    by (simp add: hit_interval [of _ r ray_t rec] split: option.splits if_splits)
next
  case True
  with assms have fh: "first_hit (Hittable_list scene_objects) r (min_bound ray_t) = Some rec'"
      and lt: "xless (Fin (hit_t rec')) (max_bound ray_t)"
    by (simp_all add: hit_interval [of _ r ray_t rec] split: option.splits if_splits)
  from fh have "nearest (map (\<lambda>obj. first_hit obj r (min_bound ray_t)) scene_objects) = Some rec'"
    by (simp add: first_hit_list)
  from nearest_Some [OF this] obtain i where i: "i < length scene_objects"
      "first_hit (scene_objects ! i) r (min_bound ray_t) = Some rec'"
    by auto
  have "hit (scene_objects ! i) r ray_t tmp = (True, rec')" for tmp
    using i(2) lt by (simp add: hit_interval [of _ r ray_t tmp])
  then show ?thesis using True i(1) by (auto intro!: bexI [of _ "scene_objects ! i"])
qed

text \<open>
  Claim C2.  When \<open>hittable_list::hit\<close> returns true, the record is the one some
  member \<open>i\<close> reports for the same ray and interval; no member reports a smaller
  \<open>t\<close>, and every member before \<open>i\<close> that reports a hit reports a strictly larger
  \<open>t\<close>: among equal \<open>t\<close> the first member stands.
\<close>

theorem hittable_list_hit_nearest:
  assumes "hit (Hittable_list scene_objects) r ray_t rec = (True, rec')"
  shows "\<exists>i<length scene_objects.
           hit (scene_objects ! i) r ray_t tmp = (True, rec')
         \<and> (\<forall>j<i. \<forall>tmp' h. hit (scene_objects ! j) r ray_t tmp' = (True, h) \<longrightarrow> hit_t rec' < hit_t h)
         \<and> (\<forall>j<length scene_objects. \<forall>tmp' h.
               hit (scene_objects ! j) r ray_t tmp' = (True, h) \<longrightarrow> hit_t rec' \<le> hit_t h)"
proof -
  let ?lo = "min_bound ray_t"
  let ?hs = "map (\<lambda>obj. first_hit obj r ?lo) scene_objects"
  from assms have fh: "first_hit (Hittable_list scene_objects) r ?lo = Some rec'"
      and lt: "xless (Fin (hit_t rec')) (max_bound ray_t)"
    by (simp_all add: hit_interval [of _ r ray_t rec] split: option.splits if_splits)
  from fh have "nearest ?hs = Some rec'"
    by (simp add: first_hit_list)
  from nearest_Some [OF this] obtain i where i: "i < length scene_objects"
      "first_hit (scene_objects ! i) r ?lo = Some rec'"
      "\<forall>j<i. \<forall>h'. ?hs ! j = Some h' \<longrightarrow> hit_t rec' < hit_t h'"
      "\<forall>j<length ?hs. \<forall>h'. ?hs ! j = Some h' \<longrightarrow> hit_t rec' \<le> hit_t h'"
    by auto
  have member: "first_hit (scene_objects ! j) r ?lo = Some h"
    if "hit (scene_objects ! j) r ray_t tmp' = (True, h)" for j tmp' h
    using that by (simp add: hit_interval [of _ r ray_t tmp'] split: option.splits if_splits)
  show ?thesis
  proof (intro exI [of _ i] conjI allI impI)
    show "i < length scene_objects" by (rule i(1))
    show "hit (scene_objects ! i) r ray_t tmp = (True, rec')"
      using i(2) lt by (simp add: hit_interval [of _ r ray_t tmp])
    show "hit_t rec' < hit_t h"
      if "j < i" "hit (scene_objects ! j) r ray_t tmp' = (True, h)" for j tmp' h
      using i(3) i(1) that(1) member [OF that(2)] by simp
    show "hit_t rec' \<le> hit_t h"
      if "j < length scene_objects" "hit (scene_objects ! j) r ray_t tmp' = (True, h)" for j tmp' h
      using i(4) that(1) member [OF that(2)] by simp
  qed
qed


lemmas vec3_defs = zero_vec3_def uminus_vec3_def plus_vec3_def minus_vec3_def times_vec3_def
  scale_def vdiv_def length_squared_def dot_def

lemmas sphere_hit_defs = sphere_hit_def sphere_record_def set_face_normal_def surrounds_def
  ray_at_def Let_def hit_record_init_def

lemma example_sphere_hit:
  "sphere_hit (Vec3 0 0 0) 1 m \<lparr>orig = Vec3 0 0 (- 3), dir = Vec3 0 0 1\<rparr>
       \<lparr>min_bound = Fin (1 / 1000), max_bound = PInf\<rparr> rec
     = (True, \<lparr>hit_p = Vec3 0 0 (- 1), hit_t = 2, hit_normal = Vec3 0 0 (- 1),
               hit_frontfacing = True, hit_mat = Some m\<rparr>)"
  by (cases rec) (simp add: sphere_hit_defs vec3_defs)

lemma example_sphere_hit_behind:
  "sphere_hit (Vec3 0 0 0) 1 m \<lparr>orig = Vec3 0 0 (- 3), dir = Vec3 0 0 1\<rparr>
       \<lparr>min_bound = Fin (1 / 1000), max_bound = Fin 2\<rparr> rec = (False, rec)"
  by (simp add: sphere_hit_defs vec3_defs)

lemma example_sphere_miss:
  "sphere_hit (Vec3 0 0 0) 1 m \<lparr>orig = Vec3 0 0 (- 3), dir = Vec3 0 1 0\<rparr> ray_t rec = (False, rec)"
  by (simp add: sphere_hit_defs vec3_defs)

text \<open>
  Claim C1.  When \<open>sphere::hit\<close> returns true, the recorded \<open>t\<close> lies strictly
  inside the queried interval, the recorded point is \<open>r.at(t)\<close>, that is
  \<open>origin + t * direction\<close>, and \<open>t\<close> is the smaller root of the quadratic when that
  root lies strictly inside the interval and the larger root otherwise.
\<close>

theorem sphere_hit_root:
  assumes "sphere_hit center radius m r ray_t rec = (True, rec')"
  shows "xless (min_bound ray_t) (Fin (hit_t rec')) \<and> xless (Fin (hit_t rec')) (max_bound ray_t)
       \<and> hit_p rec' = ray_at r (hit_t rec')
       \<and> hit_p rec' = orig r + scale (hit_t rec') (dir r)
       \<and> (let oc = orig r - center;
               a = length_squared (dir r);
               half_b = dot (dir r) oc;
               c = length_squared oc - radius * radius;
               disc = half_b * half_b - a * c;
               smaller = (- half_b - sqrt disc) / a;
               larger = (- half_b + sqrt disc) / a
           in hit_t rec' = (if xless (min_bound ray_t) (Fin smaller) \<and> xless (Fin smaller) (max_bound ray_t)
                            then smaller else larger))"
  using assms
  by (auto simp: sphere_hit_def Let_def surrounds_def ray_at_def split: if_splits)


theorem sphere_hit_root_witness:
  "sphere_hit (Vec3 0 0 0) 1 (Lambertian (Vec3 1 0 0)) \<lparr>orig = Vec3 0 0 (- 3), dir = Vec3 0 0 1\<rparr>
       \<lparr>min_bound = Fin (1 / 1000), max_bound = PInf\<rparr> hit_record_init
     = (True, \<lparr>hit_p = Vec3 0 0 (- 1), hit_t = 2, hit_normal = Vec3 0 0 (- 1),
               hit_frontfacing = True, hit_mat = Some (Lambertian (Vec3 1 0 0))\<rparr>)
   \<and> xless (Fin (1 / 1000)) (Fin 2) \<and> xless (Fin 2) PInf
   \<and> Vec3 0 0 (- 1) = ray_at \<lparr>orig = Vec3 0 0 (- 3), dir = Vec3 0 0 1\<rparr> 2
   \<and> (2 :: real) = (- (- 3) - sqrt ((- 3) * (- 3) - 1 * (9 - 1 * 1))) / 1"
  using sphere_hit_root [OF example_sphere_hit [of "Lambertian (Vec3 1 0 0)" hit_record_init]]
    example_sphere_hit [of "Lambertian (Vec3 1 0 0)" hit_record_init]
  by (simp add: ray_at_def vec3_defs)


lemma example_list_hit:
  "hit (Hittable_list [Sphere (Vec3 0 0 0) 1 (Lambertian (Vec3 1 0 0)),
                       Sphere (Vec3 0 0 0) 1 (Dielectric (3 / 2))])
       \<lparr>orig = Vec3 0 0 (- 3), dir = Vec3 0 0 1\<rparr> \<lparr>min_bound = Fin (1 / 1000), max_bound = PInf\<rparr> rec
     = (True, \<lparr>hit_p = Vec3 0 0 (- 1), hit_t = 2, hit_normal = Vec3 0 0 (- 1),
               hit_frontfacing = True, hit_mat = Some (Lambertian (Vec3 1 0 0))\<rparr>)"
  by (simp add: example_sphere_hit example_sphere_hit_behind)

lemma example_list_miss:
  "hit (Hittable_list [Sphere (Vec3 0 0 0) 1 m])
       \<lparr>orig = Vec3 0 0 (- 3), dir = Vec3 0 1 0\<rparr> ray_t rec = (False, rec)"
  by (simp add: example_sphere_miss)

theorem hittable_list_hit_nearest_witness:
  "hit (Hittable_list [Sphere (Vec3 0 0 0) 1 (Lambertian (Vec3 1 0 0)),
                       Sphere (Vec3 0 0 0) 1 (Dielectric (3 / 2))])
       \<lparr>orig = Vec3 0 0 (- 3), dir = Vec3 0 0 1\<rparr> \<lparr>min_bound = Fin (1 / 1000), max_bound = PInf\<rparr>
       hit_record_init
     = (True, \<lparr>hit_p = Vec3 0 0 (- 1), hit_t = 2, hit_normal = Vec3 0 0 (- 1),
               hit_frontfacing = True, hit_mat = Some (Lambertian (Vec3 1 0 0))\<rparr>)
   \<and> (\<exists>i<2. hit ([Sphere (Vec3 0 0 0) 1 (Lambertian (Vec3 1 0 0)),
                    Sphere (Vec3 0 0 0) 1 (Dielectric (3 / 2))] ! i)
               \<lparr>orig = Vec3 0 0 (- 3), dir = Vec3 0 0 1\<rparr>
               \<lparr>min_bound = Fin (1 / 1000), max_bound = PInf\<rparr> hit_record_init
             = (True, \<lparr>hit_p = Vec3 0 0 (- 1), hit_t = 2, hit_normal = Vec3 0 0 (- 1),
                       hit_frontfacing = True, hit_mat = Some (Lambertian (Vec3 1 0 0))\<rparr>))"
proof -
  note h = example_list_hit [of hit_record_init]
  from hittable_list_hit_nearest [OF h, of hit_record_init]
  obtain i where i: "i < length [Sphere (Vec3 0 0 0) 1 (Lambertian (Vec3 1 0 0)),
                    Sphere (Vec3 0 0 0) 1 (Dielectric (3 / 2))]"
    and "hit ([Sphere (Vec3 0 0 0) 1 (Lambertian (Vec3 1 0 0)),
                    Sphere (Vec3 0 0 0) 1 (Dielectric (3 / 2))] ! i)
               \<lparr>orig = Vec3 0 0 (- 3), dir = Vec3 0 0 1\<rparr>
               \<lparr>min_bound = Fin (1 / 1000), max_bound = PInf\<rparr> hit_record_init
             = (True, \<lparr>hit_p = Vec3 0 0 (- 1), hit_t = 2, hit_normal = Vec3 0 0 (- 1),
                       hit_frontfacing = True, hit_mat = Some (Lambertian (Vec3 1 0 0))\<rparr>)"
    by blast
  moreover from i have "i < 2" by simp
  ultimately show ?thesis using h by blast
qed

theorem hittable_list_hit_frame_witness:
  "hit (Hittable_list [Sphere (Vec3 0 0 0) 1 (Dielectric (3 / 2))])
       \<lparr>orig = Vec3 0 0 (- 3), dir = Vec3 0 1 0\<rparr> \<lparr>min_bound = Fin (1 / 1000), max_bound = PInf\<rparr>
       \<lparr>hit_p = Vec3 1 2 3, hit_t = 4, hit_normal = Vec3 0 1 0, hit_frontfacing = True,
        hit_mat = Some (Metal (Vec3 1 1 1) 0)\<rparr>
     = (False, \<lparr>hit_p = Vec3 1 2 3, hit_t = 4, hit_normal = Vec3 0 1 0, hit_frontfacing = True,
                hit_mat = Some (Metal (Vec3 1 1 1) 0)\<rparr>)
   \<and> (\<exists>obj\<in>set [Sphere (Vec3 0 0 0) 1 (Lambertian (Vec3 1 0 0)),
                    Sphere (Vec3 0 0 0) 1 (Dielectric (3 / 2))].
         \<forall>tmp. hit obj \<lparr>orig = Vec3 0 0 (- 3), dir = Vec3 0 0 1\<rparr>
                    \<lparr>min_bound = Fin (1 / 1000), max_bound = PInf\<rparr> tmp
             = (True, \<lparr>hit_p = Vec3 0 0 (- 1), hit_t = 2, hit_normal = Vec3 0 0 (- 1),
                       hit_frontfacing = True, hit_mat = Some (Lambertian (Vec3 1 0 0))\<rparr>))"
  using hittable_list_hit_frame [OF example_list_miss]
    hittable_list_hit_frame [OF example_list_hit [of hit_record_init]]
    example_list_miss
  by blast

theorem hit_normal_invariant_witness:
  "nonzero_radius (Hittable_list [Sphere (Vec3 0 0 0) 1 (Lambertian (Vec3 1 0 0)),
                                  Sphere (Vec3 0 0 0) 1 (Dielectric (3 / 2))])
   \<and> hit (Hittable_list [Sphere (Vec3 0 0 0) 1 (Lambertian (Vec3 1 0 0)),
                          Sphere (Vec3 0 0 0) 1 (Dielectric (3 / 2))])
       \<lparr>orig = Vec3 0 0 (- 3), dir = Vec3 0 0 1\<rparr> \<lparr>min_bound = Fin (1 / 1000), max_bound = PInf\<rparr>
       hit_record_init
     = (True, \<lparr>hit_p = Vec3 0 0 (- 1), hit_t = 2, hit_normal = Vec3 0 0 (- 1),
               hit_frontfacing = True, hit_mat = Some (Lambertian (Vec3 1 0 0))\<rparr>)
   \<and> vlength (Vec3 0 0 (- 1)) = 1 \<and> dot (Vec3 0 0 1) (Vec3 0 0 (- 1)) \<le> 0"
proof -
  have wf: "nonzero_radius (Hittable_list [Sphere (Vec3 0 0 0) 1 (Lambertian (Vec3 1 0 0)),
                                  Sphere (Vec3 0 0 0) 1 (Dielectric (3 / 2))])"
    by simp
  show ?thesis
    using hit_normal_invariant [OF wf example_list_hit [of hit_record_init]] wf
      example_list_hit [of hit_record_init]
    by simp
qed

section \<open>Qsqrt at 1\<close>






















section \<open>The constant random source\<close>

lemma constant_source_simps [simp]:
  "random_double (constant_source c) g = (c, g)"
  "random_double_range (constant_source c) lo hi g = (lo + (hi - lo) * c, g)"
  by (simp_all add: constant_source_def)

lemma constant_source_sphere:
  "random_in_unit_sphere (constant_source (1 / 2)) g = Some (Vec3 0 0 0, g)"
  by (subst random_in_unit_sphere.simps)
     (simp add: vec3_random_def length_squared_def)

lemma constant_source_unit_vector:
  "random_unit_vector (constant_source (1 / 2)) g = Some (Vec3 0 0 0, g)"
  by (simp add: random_unit_vector_def constant_source_sphere unit_vectorQ_def scale_def)

section \<open>dielectric::scatter and metal::scatter\<close>

text \<open>
  Claim C4.  \<open>dielectric::scatter\<close> always returns true with attenuation \<open>(1,1,1)\<close>;
  and when \<open>refraction_ratio * sin_theta > 1\<close> (with \<open>sin_theta\<close> a number, not NaN)
  the scattered direction is \<open>reflect(unit_direction, rec.normal)\<close>, whatever the
  random source is, and no random number is drawn.
\<close>

theorem dielectric_scatter_reflects:
  "(\<exists>scattered' g'. dielectric_scatter R ir r rec attenuation scattered g
        = Some (True, Vec3 1 1 1, scattered', g'))
   \<and> (let refraction_ratio = (if hit_frontfacing rec then 1 / ir else ir);
           unit_direction = unit_vectorQ (dir r);
           cos_theta = min (dot (- unit_direction) (hit_normal rec)) 1;
           sin_theta = sqrt (1 - cos_theta * cos_theta)
       in 0 \<le> 1 - cos_theta * cos_theta \<and> 1 < refraction_ratio * sin_theta \<longrightarrow>
          dielectric_scatter R ir r rec attenuation scattered g
            = Some (True, Vec3 1 1 1,
                    \<lparr>orig = hit_p rec, dir = reflect unit_direction (hit_normal rec)\<rparr>, g))"
  by (simp add: dielectric_scatter_def cannot_refract_def Let_def split: prod.splits)

theorem dielectric_scatter_reflects_witness:
  "0 \<le> (1 :: real) - 0 * 0 \<and> 1 < (3 / 2) * sqrt (1 - 0 * 0)
   \<and> dielectric_scatter (constant_source (1 / 2)) (3 / 2) \<lparr>orig = Vec3 0 0 0, dir = Vec3 1 0 0\<rparr>
        \<lparr>hit_p = Vec3 2 0 0, hit_t = 2, hit_normal = Vec3 0 1 0, hit_frontfacing = False,
         hit_mat = Some (Dielectric (3 / 2))\<rparr>
        (Vec3 9 9 9) \<lparr>orig = Vec3 7 7 7, dir = Vec3 8 8 8\<rparr> ()
      = Some (True, Vec3 1 1 1,
              \<lparr>orig = Vec3 2 0 0, dir = reflect (unit_vectorQ (Vec3 1 0 0)) (Vec3 0 1 0)\<rparr>, ())"
  using dielectric_scatter_reflects [of "constant_source (1 / 2)" "3 / 2"
        "\<lparr>orig = Vec3 0 0 0, dir = Vec3 1 0 0\<rparr>"
        "\<lparr>hit_p = Vec3 2 0 0, hit_t = 2, hit_normal = Vec3 0 1 0, hit_frontfacing = False,
         hit_mat = Some (Dielectric (3 / 2))\<rparr>"
        "Vec3 9 9 9" "\<lparr>orig = Vec3 7 7 7, dir = Vec3 8 8 8\<rparr>" "()"]
  by (simp add: Let_def dot_def uminus_vec3_def unit_vectorQ_def scale_def)

text \<open>
  Claim C10.  When \<open>metal::scatter\<close> has drawn \<open>does_it_scatter < 1\<close> and returns
  false, \<open>attenuation\<close> is the albedo and \<open>scattered\<close> is the ray from \<open>rec.p\<close> along
  the fuzzed reflected direction, whose dot product with the normal is not positive:
  both reference parameters have been overwritten.
\<close>

theorem metal_scatter_absorbed_writes:
  assumes "metal_scatter R albedo fuzz r rec attenuation scattered g
             = Some (False, attenuation', scattered', g')"
    and "fst (random_double R g) < 1"
  shows "attenuation' = albedo
       \<and> (\<exists>u. random_unit_vector R (snd (random_double R g)) = Some (u, g')
              \<and> scattered' = \<lparr>orig = hit_p rec,
                    dir = reflect (unit_vectorQ (dir r)) (hit_normal rec) + scale fuzz u\<rparr>)
       \<and> dot (dir scattered') (hit_normal rec) \<le> 0"
  using assms
  by (cases albedo)
     (auto simp: metal_scatter_def Let_def vdiv_def scale_def split: prod.splits option.splits)

lemma example_metal:
  "metal_scatter (constant_source (1 / 2)) (Vec3 (4 / 5) (3 / 5) (1 / 5)) (1 / 2)
      \<lparr>orig = Vec3 0 0 0, dir = Vec3 1 0 0\<rparr>
      \<lparr>hit_p = Vec3 2 0 0, hit_t = 2, hit_normal = Vec3 0 1 0, hit_frontfacing = True,
       hit_mat = Some (Metal (Vec3 (4 / 5) (3 / 5) (1 / 5)) (1 / 2))\<rparr>
      (Vec3 9 9 9) \<lparr>orig = Vec3 7 7 7, dir = Vec3 8 8 8\<rparr> ()
   = Some (False, Vec3 (4 / 5) (3 / 5) (1 / 5),
           \<lparr>orig = Vec3 2 0 0, dir = unit_vectorQ (Vec3 1 0 0)\<rparr>, ())"
  by (simp add: metal_scatter_def constant_source_unit_vector Let_def reflect_def dot_def scale_def vdiv_def plus_vec3_def minus_vec3_def unit_vectorQ_def)

theorem metal_scatter_absorbed_writes_witness:
  "metal_scatter (constant_source (1 / 2)) (Vec3 (4 / 5) (3 / 5) (1 / 5)) (1 / 2)
      \<lparr>orig = Vec3 0 0 0, dir = Vec3 1 0 0\<rparr>
      \<lparr>hit_p = Vec3 2 0 0, hit_t = 2, hit_normal = Vec3 0 1 0, hit_frontfacing = True,
       hit_mat = Some (Metal (Vec3 (4 / 5) (3 / 5) (1 / 5)) (1 / 2))\<rparr>
      (Vec3 9 9 9) \<lparr>orig = Vec3 7 7 7, dir = Vec3 8 8 8\<rparr> ()
   = Some (False, Vec3 (4 / 5) (3 / 5) (1 / 5),
           \<lparr>orig = Vec3 2 0 0, dir = unit_vectorQ (Vec3 1 0 0)\<rparr>, ())
   \<and> fst (random_double (constant_source (1 / 2)) ()) < 1
   \<and> Vec3 (4 / 5) (3 / 5) (1 / 5) \<noteq> Vec3 9 9 9
   \<and> dot (dir \<lparr>orig = Vec3 2 0 0, dir = unit_vectorQ (Vec3 1 0 0)\<rparr>) (Vec3 0 1 0) \<le> 0"
proof -
  have draw: "fst (random_double (constant_source (1 / 2)) ()) < 1"
    by simp
  show ?thesis
    using metal_scatter_absorbed_writes [OF example_metal draw] example_metal draw
    by simp
qed

section \<open>ray_color\<close>

lemma scatter_returns:
  assumes "\<forall>g. random_in_unit_sphere R g \<noteq> None"
  shows "scatter R m r rec attenuation scattered g \<noteq> None"
proof -
  obtain d g1 where d: "random_double R g = (d, g1)"
    by (cases "random_double R g")
  from assms have "random_in_unit_sphere R g1 \<noteq> None"
    by blast
  then obtain p g2 where "random_in_unit_sphere R g1 = Some (p, g2)"
    by (cases "random_in_unit_sphere R g1") auto
  then have u: "random_unit_vector R g1 = Some (unit_vectorQ p, g2)"
    by (simp add: random_unit_vector_def)
  show ?thesis
  proof (cases m)
    case (Lambertian albedo)
    then show ?thesis by (auto simp: lambertian_scatter_def d u Let_def)
  next
    case (Metal albedo fuzz)
    then show ?thesis by (auto simp: metal_scatter_def d u Let_def)
  next
    case (Dielectric ir)
    then show ?thesis by (auto simp: dielectric_scatter_def d Let_def)
  qed
qed

lemma first_hit_mat: "first_hit obj r lo = Some h \<Longrightarrow> hit_mat h \<noteq> None"
proof (induction obj arbitrary: h)
  case (Sphere center radius m)
  then show ?case
    by (auto simp: first_hit_Some_iff sphere_hit_def Let_def split: if_splits)
next
  case (Hittable_list objs)
  from Hittable_list.prems have "nearest (map (\<lambda>obj. first_hit obj r lo) objs) = Some h"
    by (simp add: first_hit_list)
  from nearest_Some [OF this] obtain i where "i < length objs" "first_hit (objs ! i) r lo = Some h"
    by auto
  then show ?case
    using Hittable_list.IH [of "objs ! i" h] by simp
qed

lemma hit_mat_Some:
  assumes "hit world r ray_t rec = (True, rec')"
  shows "hit_mat rec' \<noteq> None"
proof -
  from assms have "first_hit world r (min_bound ray_t) = Some rec'"
    by (simp add: hit_interval [of world r ray_t rec] split: option.splits if_splits)
  then show ?thesis by (rule first_hit_mat)
qed

lemma ray_color_returns:
  assumes "\<forall>g. random_in_unit_sphere R g \<noteq> None"
  shows "\<exists>c g'. ray_color R r depth world g = Some (Inr (c, g'))"
  using assms
proof (induction R r depth world g rule: ray_color.induct)
  case (1 R r depth world g)
  show ?case
  proof (cases "depth \<le> 0")
    case True
    then show ?thesis by (simp add: ray_color.simps [of R r depth])
  next
    case deep: False
    obtain b rec where h: "hit world r \<lparr>min_bound = Fin 0.001, max_bound = PInf\<rparr> hit_record_init = (b, rec)"
      by (cases "hit world r \<lparr>min_bound = Fin 0.001, max_bound = PInf\<rparr> hit_record_init")
    show ?thesis
    proof (cases b)
      case False
      with deep h show ?thesis by (simp add: ray_color.simps [of R r depth] Let_def)
    next
      case True
      note hit_true = True
      with h have "hit world r \<lparr>min_bound = Fin 0.001, max_bound = PInf\<rparr> hit_record_init = (True, rec)"
        by simp
      then have "hit_mat rec \<noteq> None"
        by (rule hit_mat_Some)
      then obtain m where Some: "hit_mat rec = Some m"
        by auto
      obtain b2 att sc g1 where
        sc: "scatter R m r rec 0 \<lparr>orig = 0, dir = 0\<rparr> g = Some (b2, att, sc, g1)"
        using scatter_returns [OF "1.prems", of m r rec 0 "\<lparr>orig = 0, dir = 0\<rparr>" g]
        by (cases "scatter R m r rec 0 \<lparr>orig = 0, dir = 0\<rparr> g") auto
      show ?thesis
      proof (cases b2)
        case False
        with deep h hit_true Some sc show ?thesis
          by (simp add: ray_color.simps [of R r depth])
      next
        case True
        have "\<exists>c g'. ray_color R sc (depth - 1) world g1 = Some (Inr (c, g'))"
          using "1.IH" [OF deep h [symmetric] _ Some sc refl _ refl refl "1.prems"] hit_true True
          by simp
        then obtain c g' where "ray_color R sc (depth - 1) world g1 = Some (Inr (c, g'))"
          by auto
        with deep h hit_true Some sc True show ?thesis
          by (simp add: ray_color.simps [of R r depth])
      qed
    qed
  qed
qed

lemma ray_color_exhausted: "depth \<le> 0 \<Longrightarrow> ray_color R r depth world g = Some (Inr (Vec3 0 0 0, g))"
  by (simp add: ray_color.simps [of R r depth])

text \<open>
  Claim C6.  \<open>ray_color\<close> is defined by recursion on \<open>depth\<close>, which each recursive
  call decreases by one (the termination proof of its definition).  With
  \<open>depth \<le> 0\<close> it returns black and draws no random number; and provided the
  sampling loop of \<open>random_in_unit_sphere\<close> returns from every generator state, it
  returns a colour for every scene, ray, depth and generator state.
\<close>

theorem ray_color_terminates:
  "(depth \<le> 0 \<longrightarrow> ray_color R r depth world g = Some (Inr (Vec3 0 0 0, g)))
   \<and> ((\<forall>g. random_in_unit_sphere R g \<noteq> None) \<longrightarrow>
        (\<exists>c g'. ray_color R r depth world g = Some (Inr (c, g'))))"
  using ray_color_returns [of R r depth world g] ray_color_exhausted [of depth R r world g]
  by blast

theorem ray_color_terminates_witness:
  "(\<forall>g. random_in_unit_sphere (constant_source (1 / 2)) g \<noteq> None)
   \<and> (\<exists>c g'. ray_color (constant_source (1 / 2)) \<lparr>orig = Vec3 0 0 (- 3), dir = Vec3 0 0 1\<rparr> 50
                 (Hittable_list [Sphere (Vec3 0 0 0) 1 (Metal (Vec3 1 1 1) 0)]) () = Some (Inr (c, g')))
   \<and> ray_color (constant_source (1 / 2)) \<lparr>orig = Vec3 0 0 (- 3), dir = Vec3 0 0 1\<rparr> 0
        (Hittable_list [Sphere (Vec3 0 0 0) 1 (Metal (Vec3 1 1 1) 0)]) () = Some (Inr (Vec3 0 0 0, ()))"
proof -
  have total: "\<forall>g. random_in_unit_sphere (constant_source (1 / 2)) g \<noteq> None"
    by (simp add: constant_source_sphere)
  show ?thesis
    using ray_color_terminates [of 50 "constant_source (1 / 2)"]
      ray_color_terminates [of 0 "constant_source (1 / 2)"] total
    by simp
qed


lemma empty_list_miss: "hit (Hittable_list []) r ray_t rec = (False, rec)"
  by simp





section \<open>write_color\<close>

lemma decimal_0: "decimal 0 = ''0''"
  by (simp add: decimal.simps [of 0])

lemma decimal_255: "decimal 255 = ''255''"
  by (simp add: decimal.simps [of 255] decimal.simps [of 25] decimal.simps [of 2])

lemma channel_zero: "1 \<le> n \<Longrightarrow> channel 0 n = Some 0"
  by (simp add: channel_def clamp_def intensity_def truncate_def)

lemma channel_full: "1 \<le> n \<Longrightarrow> channel (of_int n) n = Some 255"
  by (simp add: channel_def clamp_def intensity_def truncate_def Let_def)

text \<open>
  Claim C8.  For \<open>n \<ge> 1\<close> samples, \<open>write_color\<close> appends the line \<open>0 0 0\<close> for the
  accumulated colour \<open>(0,0,0)\<close> and the line \<open>255 255 255\<close> for \<open>(n,n,n)\<close>.
\<close>

theorem write_color_black_white:
  assumes "1 \<le> n"
  shows "write_color out (Vec3 0 0 0) n = Some (out @ ''0 0 0'' @ [CHR 0x0A])
       \<and> write_color out (Vec3 (of_int n) (of_int n) (of_int n)) n
           = Some (out @ ''255 255 255'' @ [CHR 0x0A])"
  using assms by (simp add: write_color_def channel_zero channel_full decimal_0 decimal_255)

theorem write_color_black_white_witness:
  "(1::int) \<le> 100
   \<and> write_color [] (Vec3 0 0 0) 100 = Some (''0 0 0'' @ [CHR 0x0A])
   \<and> write_color [] (Vec3 100 100 100) 100 = Some (''255 255 255'' @ [CHR 0x0A])"
  using write_color_black_white [of 100 "[]"] by simp

end
